theory Spec2Isabelle
  imports Main "HOL-Library.AList" "HOL-Library.Sublist"
begin

section \<open>JavaScript strings\<close>

text \<open>
  A JavaScript string is a sequence of code units; it is modelled as a \<open>string\<close>,
  a list with one \<open>char\<close> for each unit (the functions below only compare units for
  equality). Positions are \<open>int\<close>, because \<open>indexOf\<close> answers \<open>-1\<close> and \<open>slice\<close>
  accepts negative positions.
\<close>

fun startsWith :: "string \<Rightarrow> string \<Rightarrow> bool" where
  "startsWith s [] = True"
| "startsWith [] (k # ks) = False"
| "startsWith (c # cs) (k # ks) = (c = k \<and> startsWith cs ks)"

text \<open>\<open>indexOfFrom s key i\<close>: the search of \<open>String.prototype.indexOf\<close>, where \<open>s\<close> is
  what is left of the string from position \<open>i\<close>.\<close>

fun indexOfFrom :: "string \<Rightarrow> string \<Rightarrow> int \<Rightarrow> int" where
  "indexOfFrom [] key i = (if key = [] then i else - 1)"
| "indexOfFrom (c # cs) key i =
     (if startsWith (c # cs) key then i else indexOfFrom cs key (i + 1))"

definition indexOf :: "string \<Rightarrow> string \<Rightarrow> int" where
  "indexOf s key = indexOfFrom s key 0"

text \<open>\<open>String.prototype.slice(start, end)\<close>: a negative position counts from the end,
  every position is clamped to the string, and an empty range gives the empty string
  (\<open>stop\<close> is the parameter JavaScript calls \<open>end\<close>).\<close>

definition slicePos :: "string \<Rightarrow> int \<Rightarrow> nat" where
  "slicePos s p =
     (let len = int (length s)
      in if p < 0 then nat (max (len + p) 0) else nat (min p len))"

definition slice :: "string \<Rightarrow> int \<Rightarrow> int \<Rightarrow> string" where
  "slice s start stop =
     (let a = slicePos s start; b = slicePos s stop in take (b - a) (drop a s))"

text \<open>\<open>slice(start)\<close> with the end left out runs to the end of the string.\<close>

definition sliceFrom :: "string \<Rightarrow> int \<Rightarrow> string" where
  "sliceFrom s start = drop (slicePos s start) s"

section \<open>core/jupyter/preserve.ts\<close>

text \<open>
  A \<open>Record<string, string>\<close> is the list of its properties in the order
  \<open>Object.keys\<close> enumerates them; \<open>preserve[key]\<close> is \<open>map_of\<close>. An absent property
  reads as \<open>undefined\<close>, which string concatenation prints as the text \<open>undefined\<close>.
\<close>

type_synonym StringRecord = "(string \<times> string) list"

definition objectKeys :: "('k \<times> 'v) list \<Rightarrow> 'k list" where
  "objectKeys obj = map fst obj"

definition propertyText :: "StringRecord \<Rightarrow> string \<Rightarrow> string" where
  "propertyText obj key = (case map_of obj key of None \<Rightarrow> ''undefined'' | Some v \<Rightarrow> v)"

text \<open>The body of the \<open>forEach\<close> callback of \<open>restorePreservedHtml\<close>: one key is
  looked up in the current text and spliced out.\<close>

definition restoreKey :: "StringRecord \<Rightarrow> string \<Rightarrow> string \<Rightarrow> string" where
  "restoreKey preserve html key =
     (let keyLoc = indexOf html key
      in slice html 0 keyLoc @ propertyText preserve key @
         sliceFrom html (keyLoc + int (length key)))"

definition restorePreservedHtml :: "string \<Rightarrow> StringRecord option \<Rightarrow> string" where
  "restorePreservedHtml html preserve =
     (case preserve of
        None \<Rightarrow> html
      | Some p \<Rightarrow> foldl (restoreKey p) html (objectKeys p))"

text \<open>
  What the first-occurrence replacement of one key is, said without the code: \<open>key\<close>
  stands between \<open>pre\<close> and \<open>post\<close>, and nowhere further left.
\<close>

definition firstOccurrence :: "string \<Rightarrow> string \<Rightarrow> string \<Rightarrow> string \<Rightarrow> bool" where
  "firstOccurrence key s pre post \<longleftrightarrow>
     s = pre @ key @ post \<and>
     (\<forall>pre' post'. s = pre' @ key @ post' \<longrightarrow> length pre \<le> length pre')"

text \<open>
  \<open>restoredInTurn p s out\<close>: \<open>out\<close> comes from \<open>s\<close> by taking the keys of \<open>p\<close> one
  after the other, each found in the text the earlier keys have left, and replacing the
  first occurrence of the key there by the key's fragment.
\<close>

inductive restoredInTurn :: "StringRecord \<Rightarrow> string \<Rightarrow> string \<Rightarrow> bool" where
  restoredNone: "restoredInTurn [] s s"
| restoredNext:
    "firstOccurrence key s pre post \<Longrightarrow> restoredInTurn kvs (pre @ v @ post) out
       \<Longrightarrow> restoredInTurn ((key, v) # kvs) s out"

text \<open>
  The reading in which every key is looked up in the html that was passed in: the
  position of the first occurrence of each key in \<open>html\<close>, and \<open>html\<close> with those
  ranges replaced (from the right, so that the positions further left stay valid).
\<close>

definition occursAt :: "string \<Rightarrow> string \<Rightarrow> nat \<Rightarrow> bool" where
  "occursAt key s i \<longleftrightarrow> i \<le> length s \<and> take (length key) (drop i s) = key"

definition firstIndex :: "string \<Rightarrow> string \<Rightarrow> nat option" where
  "firstIndex key s = find (occursAt key s) [0..<Suc (length s)]"

definition replaceAt :: "string \<Rightarrow> nat \<Rightarrow> nat \<Rightarrow> string \<Rightarrow> string" where
  "replaceAt s i n v = take i s @ v @ drop (i + n) s"

definition locatedKeys :: "string \<Rightarrow> StringRecord \<Rightarrow> (nat \<times> string \<times> string) list" where
  "locatedKeys html p =
     List.map_filter (\<lambda>(key, v). map_option (\<lambda>i. (i, key, v)) (firstIndex key html)) p"

definition firstOccurrencesReplaced :: "string \<Rightarrow> StringRecord \<Rightarrow> string" where
  "firstOccurrencesReplaced html p =
     foldl (\<lambda>s (i, key, v). replaceAt s i (length key) v) html
       (rev (sort_key fst (locatedKeys html p)))"

section \<open>Values and collaborators of the listing code\<close>

datatype JsError = Error (message: string)

text \<open>A property value of a configuration object. Numbers are the integral ones.\<close>

datatype JsValue =
    JsUndefined
  | JsBoolean bool
  | JsNumber int
  | JsString string
  | JsArray "JsValue list"

text \<open>
  An object is the list of its properties in enumeration order. Assigning a property
  keeps the place of a key that is there and appends a new one (\<open>AList.update\<close>); the
  spread \<open>{ ...base, ...obj }\<close> assigns the properties of \<open>obj\<close> in turn.
\<close>

definition spread :: "(string \<times> 'v) list \<Rightarrow> (string \<times> 'v) list \<Rightarrow> (string \<times> 'v) list" where
  "spread base obj = foldl (\<lambda>acc (k, v). AList.update k v acc) base obj"

text \<open>\<open>Array.prototype.join\<close> on strings.\<close>

fun joinStrings :: "string \<Rightarrow> string list \<Rightarrow> string" where
  "joinStrings sep [] = []"
| "joinStrings sep [x] = x"
| "joinStrings sep (x # y # ys) = x @ sep @ joinStrings sep (y # ys)"

text \<open>Modelled from the spec: \<open>uniqBy\<close> of core/lodash.ts, which is not among the
  sources. Called without a selector it de-duplicates; the first copy of a value stays.\<close>

fun uniqFrom :: "'a list \<Rightarrow> 'a list \<Rightarrow> 'a list" where
  "uniqFrom seen [] = []"
| "uniqFrom seen (x # xs) =
     (if x \<in> set seen then uniqFrom seen xs else x # uniqFrom (x # seen) xs)"

definition uniqBy :: "'a list \<Rightarrow> 'a list" where
  "uniqBy xs = uniqFrom [] xs"

subsection \<open>The document tree\<close>

text \<open>
  The document of deno_dom, as far as the listing code uses it: a tree of elements, an
  element found by its \<open>id\<close> attribute in document order, a child appended to an
  element. The reference \<open>getElementById\<close> answers is the path from the root to the
  element; appending to an element does not move it, so the path stays good.
\<close>

datatype Node =
    Element (tagName: string) (attributes: "(string \<times> string) list") (childNodes: "Node list")
  | Text string

fun getElementById :: "Node \<Rightarrow> string \<Rightarrow> nat list option"
  and getElementByIdIn :: "Node list \<Rightarrow> nat \<Rightarrow> string \<Rightarrow> nat list option" where
  "getElementById (Text t) i = None"
| "getElementById (Element tag attrs kids) i =
     (if map_of attrs ''id'' = Some i then Some [] else getElementByIdIn kids 0 i)"
| "getElementByIdIn [] n i = None"
| "getElementByIdIn (k # ks) n i =
     (case getElementById k i of
        Some p \<Rightarrow> Some (n # p)
      | None \<Rightarrow> getElementByIdIn ks (Suc n) i)"

fun appendChild :: "Node \<Rightarrow> nat list \<Rightarrow> Node \<Rightarrow> Node"
  and appendChildIn :: "Node list \<Rightarrow> nat \<Rightarrow> nat list \<Rightarrow> Node \<Rightarrow> Node list" where
  "appendChild (Text t) p child = Text t"
| "appendChild (Element tag attrs kids) [] child = Element tag attrs (kids @ [child])"
| "appendChild (Element tag attrs kids) (n # p) child =
     Element tag attrs (appendChildIn kids n p child)"
| "appendChildIn [] n p child = []"
| "appendChildIn (k # ks) 0 p child = appendChild k p child # ks"
| "appendChildIn (k # ks) (Suc n) p child = k # appendChildIn ks n p child"

text \<open>The ids of the elements of a document.\<close>

fun elementIds :: "Node \<Rightarrow> string set" where
  "elementIds (Text t) = {}"
| "elementIds (Element tag attrs kids) =
     (case map_of attrs ''id'' of None \<Rightarrow> {} | Some i \<Rightarrow> {i}) \<union> (\<Union>k \<in> set kids. elementIds k)"

subsection \<open>Listings\<close>

text \<open>
  The declarations of website-listing-shared.ts are not among the sources; the types
  below have the fields website-listing.ts reads. A listing whose type is not given has
  \<open>listingType = None\<close>.
\<close>

datatype ListingType = Default | Grid | Table | Custom

record Listing =
  listingId :: string
  listingType :: "ListingType option"
  template :: "string option"
  contents :: "string list"

record ListingItem =
  itemPath :: string
  itemTitle :: string
  itemCategories :: "string list"

record ListingDescriptor =
  listing :: Listing
  items :: "ListingItem list"

type_synonym ListingFeedOptions = "(string \<times> JsValue) list"

record ListingSharedOptions =
  categories :: bool
  feed :: "ListingFeedOptions option"

record ProjectContext =
  dir :: string

text \<open>
  \<open>templateMarkdownHandler\<close> of website-listing-template.ts builds a handler from its
  five arguments; the handler is kept as the record of that call.
\<close>

datatype 'f MarkdownPipelineHandler =
  TemplateMarkdownHandler
    (handlerTemplate: string) (handlerListing: Listing) (handlerItems: "ListingItem list")
    (handlerFormat: 'f) (handlerBundled: bool)

record 'f MarkdownPipeline =
  pipelineName :: string
  pipelineHandlers :: "'f MarkdownPipelineHandler list"

definition createMarkdownPipeline ::
  "string \<Rightarrow> 'f MarkdownPipelineHandler list \<Rightarrow> 'f MarkdownPipeline" where
  "createMarkdownPipeline name handlers = \<lparr>pipelineName = name, pipelineHandlers = handlers\<rparr>"

record TempContext =
  createFile :: "string \<Rightarrow> string"

text \<open>
  The functions website-listing.ts imports and the sources do not hold are parameters
  of the model; \<open>'f\<close> is the type of the output format, which the code only hands on.
  \<open>globMatches root glob path\<close> is the glob matcher below \<open>filterPaths\<close>.
\<close>

record 'f Env =
  join :: "string \<Rightarrow> string \<Rightarrow> string"
  relative :: "string \<Rightarrow> string \<Rightarrow> string"
  basename :: "string \<Rightarrow> string"
  resourcePath :: "string \<Rightarrow> string"
  globMatches :: "string \<Rightarrow> string \<Rightarrow> string \<Rightarrow> bool"
  readListings ::
    "string \<Rightarrow> ProjectContext \<Rightarrow> 'f \<Rightarrow> ListingDescriptor list \<times> ListingSharedOptions"
  templateJsScript :: "string \<Rightarrow> Listing \<Rightarrow> nat \<Rightarrow> string"
  categorySidebar ::
    "Node \<Rightarrow> ListingDescriptor list \<Rightarrow> 'f \<Rightarrow> ListingSharedOptions \<Rightarrow> Node \<times> Node"
  createFeed ::
    "Node \<Rightarrow> string \<Rightarrow> ProjectContext \<Rightarrow> ListingDescriptor list \<Rightarrow> ListingFeedOptions
       \<Rightarrow> 'f \<Rightarrow> string list option"
  processRenderedMarkdown :: "'f MarkdownPipeline \<Rightarrow> Node \<Rightarrow> Node"
  markdownAfterBody :: "'f MarkdownPipeline \<Rightarrow> string"
  sassLayer :: "string \<Rightarrow> (string \<times> string) list"
  kBootstrapDependencyName :: string

subsection \<open>The project listing cache\<close>

type_synonym ListingMap = "(string \<times> string list) list"

record ListingProjectData =
  listingMap :: "ListingMap option"

text \<open>What the code changes outside its arguments: the persisted listing data, one
  record per project directory, and the text files it writes.\<close>

record World =
  listingData :: "string \<rightharpoonup> ListingProjectData"
  files :: "string \<rightharpoonup> string"

definition existsSync :: "World \<Rightarrow> string \<Rightarrow> bool" where
  "existsSync w path = (files w path \<noteq> None)"

definition writeTextFileSync :: "World \<Rightarrow> string \<Rightarrow> string \<Rightarrow> World" where
  "writeTextFileSync w path text = w\<lparr>files := (files w)(path \<mapsto> text)\<rparr>"

text \<open>Modelled from the spec: \<open>listingProjectData\<close> of website-listing-project.ts,
  which is not among the sources. A project with no persisted record has empty data.\<close>

definition listingProjectData :: "World \<Rightarrow> ProjectContext \<Rightarrow> ListingProjectData" where
  "listingProjectData w project =
     (case listingData w (dir project) of
        None \<Rightarrow> \<lparr>listingMap = None\<rparr>
      | Some d \<Rightarrow> d)"

text \<open>Modelled from the spec: \<open>clearListingProjectData\<close> of website-listing-project.ts,
  which is not among the sources. It empties the cache of the project, whatever it held.\<close>

definition clearListingProjectData :: "World \<Rightarrow> ProjectContext \<Rightarrow> World" where
  "clearListingProjectData w project = w\<lparr>listingData := (listingData w)(dir project := None)\<rparr>"

text \<open>Modelled from the spec: \<open>cacheListingProjectData\<close> of website-listing-project.ts,
  which is not among the sources. The entry of the listing page becomes the union of the
  glob patterns of the descriptors' \<open>contents\<close>; the last write for a path wins.\<close>

definition cacheListingProjectData ::
  "World \<Rightarrow> ProjectContext \<Rightarrow> string \<Rightarrow> ListingDescriptor list \<Rightarrow> World" where
  "cacheListingProjectData w project listingRelativePath listingDescriptors =
     (let projData = listingProjectData w project;
          m = (case listingMap projData of None \<Rightarrow> [] | Some m \<Rightarrow> m);
          globs = uniqBy (concat (map (\<lambda>d. contents (listing d)) listingDescriptors))
      in w\<lparr>listingData := (listingData w)
             (dir project \<mapsto> projData\<lparr>listingMap := Some (AList.update listingRelativePath globs m)\<rparr>)\<rparr>)"

record ResolvedPathGlobs =
  includePaths :: "string list"
  excludePaths :: "string list"

text \<open>Modelled from the spec: \<open>filterPaths\<close> of core/path.ts, which is not among the
  sources. The field \<open>include\<close> of its result (\<open>includePaths\<close> here) holds the paths
  that match at least one of the globs; exclusion patterns are not modelled.\<close>

definition filterPaths ::
  "'f Env \<Rightarrow> string \<Rightarrow> string list \<Rightarrow> string list \<Rightarrow> ResolvedPathGlobs" where
  "filterPaths env root paths globs =
     \<lparr>includePaths = filter (\<lambda>path. list_ex (\<lambda>glob. globMatches env root glob path) globs) paths,
      excludePaths = []\<rparr>"

section \<open>project/types/website/listing/website-listing.ts\<close>

text \<open>\<open>listingMap[listingFile]\<close>; the key comes from \<open>Object.keys\<close>, so the property
  is there.\<close>

definition globsOf :: "ListingMap \<Rightarrow> string \<Rightarrow> string list" where
  "globsOf m listingFile = (case map_of m listingFile of None \<Rightarrow> [] | Some globs \<Rightarrow> globs)"

definition listingSupplementalFiles ::
  "'f Env \<Rightarrow> World \<Rightarrow> ProjectContext \<Rightarrow> string list \<Rightarrow> bool \<Rightarrow> string list \<times> World" where
  "listingSupplementalFiles env w project fileList incremental =
     (if incremental then
        (let listingProjData = listingProjectData w project;
             lmap = (case listingMap listingProjData of None \<Rightarrow> [] | Some m \<Rightarrow> m);
             listingFiles = objectKeys lmap;
             matching = filter
               (\<lambda>listingFile.
                  let globs = globsOf lmap listingFile
                  in length (includePaths (filterPaths env (dir project) fileList globs)) > 0)
               listingFiles
         in if length matching > 0
            then (uniqBy (map (\<lambda>listingRelativePath. join env (dir project) listingRelativePath)
                           matching), w)
            else ([], w))
      else ([], clearListingProjectData w project))"

text \<open>A \<open>throw\<close> is the left injection. The \<open>default:\<close> label of the switch takes
  \<open>ListingType.Default\<close> and every value that is none of the other three.\<close>

definition markdownHandler ::
  "'f Env \<Rightarrow> World \<Rightarrow> 'f \<Rightarrow> Listing \<Rightarrow> ListingItem list \<Rightarrow> JsError + 'f MarkdownPipelineHandler" where
  "markdownHandler env w format lst itms =
     (case listingType lst of
        Some Table \<Rightarrow>
          Inr (TemplateMarkdownHandler
                 (resourcePath env ''projects/website/listing/listing-table.ejs.md'')
                 lst itms format True)
      | Some Grid \<Rightarrow>
          Inr (TemplateMarkdownHandler
                 (resourcePath env ''projects/website/listing/listing-grid.ejs.md'')
                 lst itms format True)
      | Some Custom \<Rightarrow>
          (case template lst of
             None \<Rightarrow>
               Inl (Error (''In order to use a listing of type custom, '' @
                           ''please provide the path to a template.''))
           | Some t \<Rightarrow>
               if \<not> existsSync w t
               then Inl (Error (''The template '' @ t @ '' can'' @ [CHR 0x27] @ ''t be found.''))
               else Inr (TemplateMarkdownHandler t lst itms format False))
      | _ \<Rightarrow>
          Inr (TemplateMarkdownHandler
                 (resourcePath env ''projects/website/listing/listing-default.ejs.md'')
                 lst itms format True))"

definition kMarginSidebarId :: string where
  "kMarginSidebarId = ''quarto-margin-sidebar''"

text \<open>\<open>rightSidebar?.appendChild(...)\<close> does nothing when \<open>getElementById\<close> found no
  element.\<close>

definition listingPostProcess ::
  "'f Env \<Rightarrow> Node \<Rightarrow> ListingDescriptor list \<Rightarrow> ListingSharedOptions \<Rightarrow> 'f \<Rightarrow> Node" where
  "listingPostProcess env doc listingDescriptors options format =
     (if categories options then
        (let (headingEl, categoriesEl) = categorySidebar env doc listingDescriptors format options;
             rightSidebar = getElementById doc kMarginSidebarId
         in case rightSidebar of
              None \<Rightarrow> doc
            | Some el \<Rightarrow> appendChild (appendChild doc el headingEl) el categoriesEl)
      else doc)"

record HtmlPostProcessResult =
  resources :: "string list"
  supporting :: "string list"

text \<open>What a run of the post processor leaves: the document as changed, the options of
  every \<open>createFeed\<close> call made, and the value returned.\<close>

record PostProcessRun =
  document :: Node
  feedRuns :: "ListingFeedOptions list"
  result :: HtmlPostProcessResult

definition listingPostProcessor ::
  "'f Env \<Rightarrow> string \<Rightarrow> ProjectContext \<Rightarrow> ListingDescriptor list \<Rightarrow> ListingSharedOptions \<Rightarrow> 'f
     \<Rightarrow> 'f MarkdownPipeline \<Rightarrow> Node \<Rightarrow> PostProcessRun" where
  "listingPostProcessor env source project listingDescriptors options format pipeline doc =
     (let doc1 = processRenderedMarkdown env pipeline doc;
          doc2 = listingPostProcess env doc1 listingDescriptors options format
      in case feed options of
           None \<Rightarrow>
             \<lparr>document = doc2, feedRuns = [], result = \<lparr>resources = [], supporting = []\<rparr>\<rparr>
         | Some feedOptions \<Rightarrow>
             (let listingOptions = spread [(''type'', JsString ''partial'')] feedOptions;
                  feedAbsPaths = createFeed env doc2 source project listingDescriptors
                                   listingOptions format
              in \<lparr>document = doc2, feedRuns = [listingOptions],
                  result = \<lparr>resources = [],
                            supporting = (case feedAbsPaths of None \<Rightarrow> [] | Some ps \<Rightarrow> ps)\<rparr>\<rparr>))"

definition scriptFileForScripts :: "World \<Rightarrow> string list \<Rightarrow> TempContext \<Rightarrow> string \<times> World" where
  "scriptFileForScripts w scripts temp =
     (let scriptFile = createFile temp ''html'';
          text = ''<script>'' @ [CHR 0x0A] @ joinStrings [CHR 0x0A] scripts @ ''</script>''
      in (scriptFile, writeTextFileSync w scriptFile text))"

record SassBundle =
  dependency :: string
  key :: string
  quarto :: "(string \<times> string) list"

definition listingSassBundle :: "'f Env \<Rightarrow> SassBundle" where
  "listingSassBundle env =
     (let scssPath = resourcePath env ''projects/website/listing/quarto-listing.scss'';
          layer = sassLayer env scssPath
      in \<lparr>dependency = kBootstrapDependencyName env, key = scssPath,
          quarto = spread [(''name'', ''quarto-listing.css'')] layer\<rparr>)"

record DependencyFile =
  fileName :: string
  filePath :: string

record FormatDependency =
  dependencyName :: string
  scripts :: "DependencyFile list"

text \<open>The object \<open>listingHtmlDependencies\<close> returns, one field per key.\<close>

record FormatExtras =
  includeInHeader :: "string list"
  htmlPostprocessors :: "Node \<Rightarrow> PostProcessRun"
  markdownAfterBodyText :: string
  dependencies :: "FormatDependency list"
  sassBundles :: "SassBundle list"

text \<open>The loop over the descriptors stops at the first handler that throws.\<close>

fun collectResults :: "('e + 'a) list \<Rightarrow> 'e + 'a list" where
  "collectResults [] = Inr []"
| "collectResults (r # rs) =
     (case r of
        Inl e \<Rightarrow> Inl e
      | Inr x \<Rightarrow> (case collectResults rs of Inl e \<Rightarrow> Inl e | Inr xs \<Rightarrow> Inr (x # xs)))"

text \<open>\<open>Inr None\<close> is the return of \<open>undefined\<close>.\<close>

definition listingHtmlDependencies ::
  "'f Env \<Rightarrow> World \<Rightarrow> string \<Rightarrow> ProjectContext \<Rightarrow> 'f \<Rightarrow> TempContext
     \<Rightarrow> (JsError + FormatExtras option) \<times> World" where
  "listingHtmlDependencies env w source project format temp =
     (let (listingDescriptors, options) = readListings env source project format
      in if length listingDescriptors = 0 then (Inr None, w)
         else
           (let w1 = cacheListingProjectData w project (relative env (dir project) source)
                       listingDescriptors
            in case collectResults
                      (map (\<lambda>listingDescriptor.
                              markdownHandler env w1 format (listing listingDescriptor)
                                (items listingDescriptor))
                         listingDescriptors) of
                 Inl e \<Rightarrow> (Inl e, w1)
               | Inr markdownHandlers \<Rightarrow>
                   (let pipeline = createMarkdownPipeline ''quarto-listing-pipeline'' markdownHandlers;
                        jsPaths = [resourcePath env ''projects/website/listing/list.min.js'',
                                   resourcePath env ''projects/website/listing/quarto-listing.js''];
                        htmlDependencies =
                          [\<lparr>dependencyName = ''quarto-listing'',
                            scripts = map (\<lambda>path. \<lparr>fileName = basename env path, filePath = path\<rparr>)
                                        jsPaths\<rparr>];
                        scriptTexts =
                          map (\<lambda>listingItem.
                                 templateJsScript env (listingId (listing listingItem))
                                   (listing listingItem) (length (items listingItem)))
                            listingDescriptors;
                        (scriptFile, w2) = scriptFileForScripts w1 scriptTexts temp
                    in (Inr (Some
                          \<lparr>includeInHeader = [scriptFile],
                           htmlPostprocessors =
                             listingPostProcessor env source project listingDescriptors options
                               format pipeline,
                           markdownAfterBodyText = markdownAfterBody env pipeline,
                           dependencies = htmlDependencies,
                           sassBundles = [listingSassBundle env]\<rparr>), w2))))"

section \<open>core/puppeteer.ts\<close>

text \<open>
  What one attempt meets, in the order the code asks: \<open>fetchBrowser\<close> throws or
  answers a browser (\<open>True\<close>) or \<open>undefined\<close> (\<open>False\<close>); the callback (a new page, the
  navigation to the url, then the caller's function) throws or runs to its end;
  \<open>browser.close\<close> throws or returns.
\<close>

record Attempt =
  fetched :: "JsError + bool"
  ran :: "JsError + unit"
  closed :: "JsError + unit"

text \<open>\<open>withHeadlessBrowser\<close> returns \<open>undefined\<close> whenever it returns; \<open>Inr b\<close> tells
  whether the callback ran to its end. An exception of \<open>close\<close> in the \<open>finally\<close> block
  replaces the outcome of the \<open>try\<close> block.\<close>

definition withHeadlessBrowser :: "Attempt \<Rightarrow> JsError + bool" where
  "withHeadlessBrowser a =
     (case fetched a of
        Inl e \<Rightarrow> Inl e
      | Inr False \<Rightarrow> Inr False
      | Inr True \<Rightarrow>
          (case ran a of
             Inl e \<Rightarrow> (case closed a of Inl e' \<Rightarrow> Inl e' | Inr u \<Rightarrow> Inl e)
           | Inr u \<Rightarrow> (case closed a of Inl e' \<Rightarrow> Inl e' | Inr u' \<Rightarrow> Inr True)))"

definition allowedErrorMessages :: "string list" where
  "allowedErrorMessages =
     [''Navigation failed because browser has disconnected!'',
      ''Navigation timeout of 30000 ms exceeded'',
      ''Evaluation failed: undefined'']"

definition maxAttempts :: nat where
  "maxAttempts = 5"

fun decimal :: "nat \<Rightarrow> string" where
  "decimal n =
     (if n < 10 then [char_of (48 + n)] else decimal (n div 10) @ [char_of (48 + n mod 10)])"

definition retryMessage :: "JsError \<Rightarrow> nat \<Rightarrow> string" where
  "retryMessage error attempts =
     [CHR 0x0A] @ ''Encountered a bad error message from puppeteer: '' @ [CHR 0x22] @
     message error @ [CHR 0x22] @ [CHR 0x0A] @ '' Retrying '' @ decimal attempts @ ''/'' @
     decimal maxAttempts"

text \<open>A run of a retry loop: what it returned or threw, how many times it called
  \<open>withHeadlessBrowser\<close>, and the lines it logged.\<close>

record RetryRun =
  outcome :: "JsError + unit"
  attemptsMade :: nat
  consoleLog :: "string list"

text \<open>
  The \<open>while (attempts++ < maxAttempts)\<close> loop of \<open>withPuppeteerBrowserAndPage\<close>;
  \<open>attempts\<close> is the counter before the test and \<open>world n\<close> what the \<open>n\<close>-th attempt
  meets. Inside the body the counter is already one more.
\<close>

function withPuppeteerBrowserAndPageFrom ::
  "(nat \<Rightarrow> Attempt) \<Rightarrow> nat \<Rightarrow> string list \<Rightarrow> RetryRun" where
  "withPuppeteerBrowserAndPageFrom world attempts logged =
     (if attempts < maxAttempts then
        (case withHeadlessBrowser (world (attempts + 1)) of
           Inr finished \<Rightarrow>
             if finished
             then \<lparr>outcome = Inr (), attemptsMade = attempts + 1, consoleLog = logged\<rparr>
             else withPuppeteerBrowserAndPageFrom world (attempts + 1) logged
         | Inl error \<Rightarrow>
             if message error \<in> set allowedErrorMessages \<and> attempts + 1 < maxAttempts
             then withPuppeteerBrowserAndPageFrom world (attempts + 1)
                    (logged @ [retryMessage error (attempts + 1)])
             else \<lparr>outcome = Inl error, attemptsMade = attempts + 1, consoleLog = logged\<rparr>)
      else \<lparr>outcome = Inl (Error (''Internal Error - shouldn'' @ [CHR 0x27] @
                                    ''t have arrived here.'')),
            attemptsMade = attempts, consoleLog = logged\<rparr>)"
  by pat_completeness auto
termination
  by (relation "measure (\<lambda>(world, attempts, logged). maxAttempts - attempts)") auto

definition withPuppeteerBrowserAndPage :: "(nat \<Rightarrow> Attempt) \<Rightarrow> RetryRun" where
  "withPuppeteerBrowserAndPage world = withPuppeteerBrowserAndPageFrom world 0 []"

text \<open>The loop of \<open>inPuppeteer\<close>: it returns what \<open>withHeadlessBrowser\<close> returns as soon
  as that call does not throw.\<close>

function inPuppeteerFrom :: "(nat \<Rightarrow> Attempt) \<Rightarrow> nat \<Rightarrow> string list \<Rightarrow> RetryRun" where
  "inPuppeteerFrom world attempts logged =
     (if attempts < maxAttempts then
        (case withHeadlessBrowser (world (attempts + 1)) of
           Inr finished \<Rightarrow>
             \<lparr>outcome = Inr (), attemptsMade = attempts + 1, consoleLog = logged\<rparr>
         | Inl error \<Rightarrow>
             if message error \<in> set allowedErrorMessages \<and> attempts + 1 < maxAttempts
             then inPuppeteerFrom world (attempts + 1)
                    (logged @ [retryMessage error (attempts + 1)])
             else \<lparr>outcome = Inl error, attemptsMade = attempts + 1, consoleLog = logged\<rparr>)
      else \<lparr>outcome = Inl (Error (''Internal Error - shouldn'' @ [CHR 0x27] @
                                    ''t have arrived here.'')),
            attemptsMade = attempts, consoleLog = logged\<rparr>)"
  by pat_completeness auto
termination
  by (relation "measure (\<lambda>(world, attempts, logged). maxAttempts - attempts)") auto

definition inPuppeteer :: "(nat \<Rightarrow> Attempt) \<Rightarrow> RetryRun" where
  "inPuppeteer world = inPuppeteerFrom world 0 []"

text \<open>
  An attempt that ends in an exception whose message is on the allow-list, and a run in
  which every attempt before the \<open>n\<close>-th ends so.
\<close>

definition allowedFailure :: "Attempt \<Rightarrow> bool" where
  "allowedFailure a =
     (case withHeadlessBrowser a of
        Inl e \<Rightarrow> message e \<in> set allowedErrorMessages
      | Inr b \<Rightarrow> False)"

definition allowedFailuresBefore :: "(nat \<Rightarrow> Attempt) \<Rightarrow> nat \<Rightarrow> bool" where
  "allowedFailuresBefore world n = list_all (\<lambda>j. allowedFailure (world j)) [1..<n]"

section \<open>An environment to run the model in\<close>

text \<open>
  Stand-ins for the collaborators, to evaluate the model on concrete inputs: a glob
  matcher over project-relative paths that knows literal characters and \<open>*\<close> (any run
  of characters other than \<open>/\<close>), and a path join for paths that need no normalising.
\<close>

fun globMatch :: "string \<Rightarrow> string \<Rightarrow> bool" where
  "globMatch [] [] = True"
| "globMatch [] (c # cs) = False"
| "globMatch (g # gs) [] = (g = CHR ''*'' \<and> globMatch gs [])"
| "globMatch (g # gs) (c # cs) =
     (if g = CHR ''*''
      then globMatch gs (c # cs) \<or> (c \<noteq> CHR ''/'' \<and> globMatch (g # gs) cs)
      else g = c \<and> globMatch gs cs)"

definition sampleJoin :: "string \<Rightarrow> string \<Rightarrow> string" where
  "sampleJoin a b = (if a = [] then b else if b = [] then a else a @ ''/'' @ b)"

definition sampleEnv :: "unit Env" where
  "sampleEnv =
     \<lparr>join = sampleJoin,
      relative = (\<lambda>from to. if prefix (from @ ''/'') to then drop (length from + 1) to else to),
      basename = (\<lambda>path. rev (takeWhile (\<lambda>c. c \<noteq> CHR ''/'') (rev path))),
      resourcePath = (\<lambda>path. ''/share/'' @ path),
      globMatches = (\<lambda>root glob path. globMatch glob path),
      readListings = (\<lambda>source project format. ([], \<lparr>categories = False, feed = None\<rparr>)),
      templateJsScript = (\<lambda>i lst n. i),
      categorySidebar = (\<lambda>doc ds format options.
         (Element ''h5'' [] [Text ''Categories''], Element ''div'' [] [])),
      createFeed = (\<lambda>doc source project ds options format. Some [''index.xml'']),
      processRenderedMarkdown = (\<lambda>pipeline doc. doc),
      markdownAfterBody = (\<lambda>pipeline. []),
      sassLayer = (\<lambda>path. []),
      kBootstrapDependencyName = ''bootstrap''\<rparr>"

definition sampleProject :: ProjectContext where
  "sampleProject = \<lparr>dir = ''/site''\<rparr>"

text \<open>A world in which the cache of the project holds the one entry of the scenario
  \<open>{ "blog/index.qmd": ["posts/*.md"] }\<close> and no file exists.\<close>

definition sampleWorld :: World where
  "sampleWorld =
     \<lparr>listingData =
        [''/site'' \<mapsto> \<lparr>listingMap = Some [(''blog/index.qmd'', [''posts/*.md''])]\<rparr>],
      files = Map.empty\<rparr>"

text \<open>A custom listing whose template file does not exist, feed options around a given
  feed configuration, and a document without the margin sidebar.\<close>

definition sampleListing :: Listing where
  "sampleListing = \<lparr>listingId = ''listing-blog'', listingType = Some Custom,
     template = Some ''missing.ejs'', contents = [''posts/*.md'']\<rparr>"

definition sampleOptions :: "ListingFeedOptions \<Rightarrow> ListingSharedOptions" where
  "sampleOptions feedOptions = \<lparr>categories = True, feed = Some feedOptions\<rparr>"

text \<open>The environment in which every page declares that one custom listing, and a
  temporary-file allocator.\<close>

definition sampleListingEnv :: "unit Env" where
  "sampleListingEnv =
     sampleEnv\<lparr>readListings := (\<lambda>source project format.
        ([\<lparr>listing = sampleListing, items = []\<rparr>], sampleOptions []))\<rparr>"

definition sampleTemp :: TempContext where
  "sampleTemp = \<lparr>createFile = (\<lambda>suffix. ''/tmp/quarto-1.'' @ suffix)\<rparr>"

definition sampleDocument :: Node where
  "sampleDocument =
     Element ''html'' [] [Element ''body'' [] [Element ''div'' [(''id'', ''quarto-content'')] []]]"

text \<open>Attempts in which the callback throws an error with a given message: two transient
  failures followed by another error, and a navigation that times out every time.\<close>

definition failing :: "string \<Rightarrow> Attempt" where
  "failing m = \<lparr>fetched = Inr True, ran = Inl (Error m), closed = Inr ()\<rparr>"

definition sampleAttempts :: "nat \<Rightarrow> Attempt" where
  "sampleAttempts n =
     (if n < 3 then failing ''Evaluation failed: undefined'' else failing ''Protocol error'')"

definition timeouts :: "nat \<Rightarrow> Attempt" where
  "timeouts n = failing ''Navigation timeout of 30000 ms exceeded''"

section \<open>Properties of restorePreservedHtml\<close>

lemma startsWith_iff: "startsWith s k \<longleftrightarrow> (\<exists>post. s = k @ post)"
  by (induction s k rule: startsWith.induct) auto

lemma indexOfFrom_first:
  "firstOccurrence k s pre post \<Longrightarrow> indexOfFrom s k i = i + int (length pre)"
proof (induction s arbitrary: pre i)
  case Nil
  then show ?case by (simp add: firstOccurrence_def)
next
  case (Cons c cs)
  show ?case
  proof (cases "startsWith (c # cs) k")
    case True
    then obtain rest where "c # cs = [] @ k @ rest" by (auto simp: startsWith_iff)
    with Cons.prems have "length pre \<le> length ([]::string)"
      unfolding firstOccurrence_def by blast
    with True show ?thesis by simp
  next
    case False
    from Cons.prems have s: "c # cs = pre @ k @ post" by (simp add: firstOccurrence_def)
    with False have "pre \<noteq> []" by (auto simp: startsWith_iff)
    then obtain pre2 where pre: "pre = c # pre2" using s by (cases pre) auto
    have "firstOccurrence k cs pre2 post"
      unfolding firstOccurrence_def
    proof (intro conjI allI impI)
      show "cs = pre2 @ k @ post" using s pre by simp
    next
      fix pre' post' assume "cs = pre' @ k @ post'"
      then have "c # cs = (c # pre') @ k @ post'" by simp
      with Cons.prems have "length pre \<le> length (c # pre')"
        unfolding firstOccurrence_def by blast
      then show "length pre2 \<le> length pre'" using pre by simp
    qed
    from Cons.IH[OF this] False pre show ?thesis by simp
  qed
qed

lemma slice_prefix: "n \<le> length s \<Longrightarrow> slice s 0 (int n) = take n s"
  by (simp add: slice_def slicePos_def Let_def)

lemma sliceFrom_drop: "n \<le> length s \<Longrightarrow> sliceFrom s (int n) = drop n s"
  by (simp add: sliceFrom_def slicePos_def Let_def)

lemma restoreKey_first:
  assumes "firstOccurrence k html pre post" and "map_of p k = Some v"
  shows "restoreKey p html k = pre @ v @ post"
proof -
  from assms(1) have h: "html = pre @ k @ post" by (simp add: firstOccurrence_def)
  have loc: "indexOf html k = int (length pre)"
    using indexOfFrom_first[OF assms(1), of 0] by (simp add: indexOf_def)
  have a: "slice html 0 (int (length pre)) = pre"
    using slice_prefix[of "length pre" html] h by simp
  have "int (length pre) + int (length k) = int (length pre + length k)" by simp
  moreover have "sliceFrom html (int (length pre + length k)) = post"
    using sliceFrom_drop[of "length pre + length k" html] h by simp
  ultimately show ?thesis
    using a loc assms(2) by (simp add: restoreKey_def propertyText_def Let_def)
qed

lemma restoredInTurn_foldl:
  "restoredInTurn kvs s out \<Longrightarrow> set kvs \<subseteq> set p \<Longrightarrow> distinct (map fst p)
     \<Longrightarrow> foldl (restoreKey p) s (map fst kvs) = out"
proof (induction rule: restoredInTurn.induct)
  case (restoredNone s)
  then show ?case by simp
next
  case (restoredNext k s pre post kvs v out)
  then have "map_of p k = Some v" by simp
  from restoreKey_first[OF restoredNext.hyps(1) this] restoredNext show ?case by simp
qed

lemma indexOfFrom_least:
  "s = pre' @ k @ post' \<Longrightarrow> indexOfFrom s k i \<le> i + int (length pre')"
proof (induction s arbitrary: pre' i)
  case Nil
  then show ?case by simp
next
  case (Cons c cs)
  show ?case
  proof (cases "startsWith (c # cs) k")
    case True
    then show ?thesis by simp
  next
    case False
    with Cons.prems have "pre' \<noteq> []" by (auto simp: startsWith_iff)
    then obtain pre2 where pre: "pre' = c # pre2" using Cons.prems by (cases pre') auto
    with Cons.prems have "cs = pre2 @ k @ post'" by simp
    from Cons.IH[OF this, of "i + 1"] False pre show ?thesis by simp
  qed
qed

lemma firstOccurrence_indexOf:
  assumes "s = pre @ k @ post" and "indexOf s k = int (length pre)"
  shows "firstOccurrence k s pre post"
  unfolding firstOccurrence_def
proof (intro conjI allI impI)
  show "s = pre @ k @ post" by fact
next
  fix pre' post' assume "s = pre' @ k @ post'"
  from indexOfFrom_least[OF this, of 0] assms(2)
  show "length pre \<le> length pre'" by (simp add: indexOf_def)
qed

text \<open>
  Claim C10, as the code has it. Without a preserve map the html comes back unchanged.
  With a map of distinct keys the keys are taken in the order of \<open>Object.keys\<close>, and
  each is looked up in the text the earlier keys have left, not in the html passed in:
  whenever each key occurs in that text at its turn, the result is the text in which,
  turn by turn, the first occurrence of the key was replaced by the key's fragment, every
  key once.
\<close>

theorem restorePreservedHtml_in_turn:
  "restorePreservedHtml html None = html \<and>
   (distinct (map fst p) \<longrightarrow> restoredInTurn p html out \<longrightarrow>
      restorePreservedHtml html (Some p) = out)"
  using restoredInTurn_foldl[of p html out p]
  by (simp add: restorePreservedHtml_def objectKeys_def)

theorem restorePreservedHtml_in_turn_witness:
  "distinct (map fst [(''k1'', ''A''), (''k2'', ''B'')]) \<and>
   restoredInTurn [(''k1'', ''A''), (''k2'', ''B'')] ''<p>k1</p><p>k2</p>'' ''<p>A</p><p>B</p>'' \<and>
   restorePreservedHtml ''<p>k1</p><p>k2</p>'' (Some [(''k1'', ''A''), (''k2'', ''B'')])
     = ''<p>A</p><p>B</p>''"
proof -
  have d: "distinct (map fst [(''k1'', ''A''), (''k2'', ''B'')])" by simp
  have f1: "firstOccurrence ''k1'' ''<p>k1</p><p>k2</p>'' ''<p>'' ''</p><p>k2</p>''"
    by (rule firstOccurrence_indexOf) (simp_all add: indexOf_def)
  have f2: "firstOccurrence ''k2'' (''<p>'' @ ''A'' @ ''</p><p>k2</p>'') ''<p>A</p><p>'' ''</p>''"
    by (rule firstOccurrence_indexOf) (simp_all add: indexOf_def)
  have "restoredInTurn [] (''<p>A</p><p>'' @ ''B'' @ ''</p>'') ''<p>A</p><p>B</p>''"
    using restoredNone[of "''<p>A</p><p>B</p>''"] by simp
  from restoredNext[OF f2 this] have "restoredInTurn [(''k2'', ''B'')] (''<p>'' @ ''A'' @ ''</p><p>k2</p>'') ''<p>A</p><p>B</p>''" .
  from restoredNext[OF f1 this]
  have r: "restoredInTurn [(''k1'', ''A''), (''k2'', ''B'')] ''<p>k1</p><p>k2</p>'' ''<p>A</p><p>B</p>''" .
  from restorePreservedHtml_in_turn[of "''<p>k1</p><p>k2</p>''" "[(''k1'', ''A''), (''k2'', ''B'')]"
      "''<p>A</p><p>B</p>''"] d r
  show ?thesis by blast
qed

text \<open>
  Claim C10 as it is written fails when a fragment holds a later key. Both keys are
  distinct and occur in the html \<open>[kA][kB]\<close>; the html with the first occurrence of each
  key replaced is \<open>[<kB>][x]\<close>, and the code answers \<open>[<x>][kB]\<close>: the second key is
  found inside the fragment of the first, and its occurrence in the html stays.
\<close>

theorem restorePreservedHtml_counterexample:
  "distinct (map fst [(''kA'', ''<kB>''), (''kB'', ''x'')]) \<and>
   list_all (\<lambda>k. sublist k ''[kA][kB]'') (map fst [(''kA'', ''<kB>''), (''kB'', ''x'')]) \<and>
   firstOccurrencesReplaced ''[kA][kB]'' [(''kA'', ''<kB>''), (''kB'', ''x'')] = ''[<kB>][x]'' \<and>
   restorePreservedHtml ''[kA][kB]'' (Some [(''kA'', ''<kB>''), (''kB'', ''x'')]) = ''[<x>][kB]'' \<and>
   restorePreservedHtml ''[kA][kB]'' (Some [(''kA'', ''<kB>''), (''kB'', ''x'')])
     \<noteq> firstOccurrencesReplaced ''[kA][kB]'' [(''kA'', ''<kB>''), (''kB'', ''x'')]"
proof (intro conjI)
  show "distinct (map fst [(''kA'', ''<kB>''), (''kB'', ''x'')])" by simp
  have "sublist ''kA'' (''['' @ ''kA'' @ ''][kB]'')" "sublist ''kB'' (''[kA]['' @ ''kB'' @ '']'')"
    by (rule sublist_appendI)+
  then show "list_all (\<lambda>k. sublist k ''[kA][kB]'') (map fst [(''kA'', ''<kB>''), (''kB'', ''x'')])"
    by simp
  show "firstOccurrencesReplaced ''[kA][kB]'' [(''kA'', ''<kB>''), (''kB'', ''x'')] = ''[<kB>][x]''"
    by code_simp
  show "restorePreservedHtml ''[kA][kB]'' (Some [(''kA'', ''<kB>''), (''kB'', ''x'')]) = ''[<x>][kB]''"
    by code_simp
  show "restorePreservedHtml ''[kA][kB]'' (Some [(''kA'', ''<kB>''), (''kB'', ''x'')])
     \<noteq> firstOccurrencesReplaced ''[kA][kB]'' [(''kA'', ''<kB>''), (''kB'', ''x'')]"
    by code_simp
qed

section \<open>Properties of the listing cache\<close>

lemma uniqFrom_set: "set (uniqFrom seen xs) = set xs - set seen"
  by (induction xs arbitrary: seen) auto

lemma uniqFrom_distinct: "distinct (uniqFrom seen xs)"
  by (induction xs arbitrary: seen) (auto simp: uniqFrom_set)

lemma uniqBy_set: "set (uniqBy xs) = set xs"
  by (simp add: uniqBy_def uniqFrom_set)

lemma uniqBy_distinct: "distinct (uniqBy xs)"
  by (simp add: uniqBy_def uniqFrom_distinct)

lemma filterPaths_nonempty:
  "(includePaths (filterPaths env root paths globs) \<noteq> []) \<longleftrightarrow>
   (\<exists>path \<in> set paths. \<exists>glob \<in> set globs. globMatches env root glob path)"
  by (simp add: filterPaths_def list_ex_iff filter_empty_conv)

lemma incremental_result:
  assumes "listingData w (dir project) = Some \<lparr>listingMap = Some lmap\<rparr>"
  shows "listingSupplementalFiles env w project fileList True =
     (uniqBy (map (join env (dir project))
        (filter (\<lambda>page. \<exists>path \<in> set fileList. \<exists>glob \<in> set (globsOf lmap page).
                    globMatches env (dir project) glob path)
           (map fst lmap))), w)"
proof -
  have "uniqBy (map (join env (dir project)) []) = []" by (simp add: uniqBy_def)
  then show ?thesis
    using assms
    by (auto simp add: listingSupplementalFiles_def listingProjectData_def objectKeys_def
        Let_def filterPaths_nonempty)
qed

lemma sample_listingData:
  "listingData sampleWorld (dir sampleProject) =
     Some \<lparr>listingMap = Some [(''blog/index.qmd'', [''posts/*.md''])]\<rparr>"
  by (simp add: sampleWorld_def sampleProject_def)

lemma sample_changed_post:
  "fst (listingSupplementalFiles sampleEnv sampleWorld sampleProject [''posts/a.md''] True)
     = [''/site/blog/index.qmd'']"
proof -
  have "listingSupplementalFiles sampleEnv sampleWorld sampleProject [''posts/a.md''] True =
     (uniqBy (map (join sampleEnv (dir sampleProject))
        (filter (\<lambda>page. \<exists>path \<in> set [''posts/a.md''].
                    \<exists>glob \<in> set (globsOf [(''blog/index.qmd'', [''posts/*.md''])] page).
                    globMatches sampleEnv (dir sampleProject) glob path)
           (map fst [(''blog/index.qmd'', [''posts/*.md''])]))), sampleWorld)"
    by (rule incremental_result[OF sample_listingData])
  then show ?thesis
    by (simp add: globsOf_def sampleEnv_def sampleProject_def sampleJoin_def uniqBy_def)
qed

text \<open>
  Claim C1: invalidation soundness. Whatever the cache of the project holds and whatever
  files changed, the incremental call returns the path of every cached listing page one
  of whose recorded globs matches one of the changed files, and no path twice.
\<close>

theorem listingSupplementalFiles_sound:
  assumes "listingData w (dir project) = Some \<lparr>listingMap = Some lmap\<rparr>"
  shows "(\<forall>page globs.
            map_of lmap page = Some globs \<and>
            (\<exists>glob \<in> set globs. \<exists>path \<in> set fileList. globMatches env (dir project) glob path)
            \<longrightarrow> join env (dir project) page
                  \<in> set (fst (listingSupplementalFiles env w project fileList True))) \<and>
         distinct (fst (listingSupplementalFiles env w project fileList True))"
proof (intro conjI allI impI)
  fix page globs
  assume h: "map_of lmap page = Some globs \<and>
    (\<exists>glob \<in> set globs. \<exists>path \<in> set fileList. globMatches env (dir project) glob path)"
  then have "page \<in> set (map fst lmap)"
    by (metis map_of_eq_None_iff option.distinct(1) set_map)
  moreover from h have "globsOf lmap page = globs" by (simp add: globsOf_def)
  ultimately show "join env (dir project) page
      \<in> set (fst (listingSupplementalFiles env w project fileList True))"
    using h by (auto simp add: incremental_result[OF assms] uniqBy_set)
next
  show "distinct (fst (listingSupplementalFiles env w project fileList True))"
    by (simp add: incremental_result[OF assms] uniqBy_distinct)
qed

theorem listingSupplementalFiles_sound_witness:
  "''/site/blog/index.qmd''
      \<in> set (fst (listingSupplementalFiles sampleEnv sampleWorld sampleProject
                    [''posts/a.md'', ''readme.md''] True)) \<and>
   distinct (fst (listingSupplementalFiles sampleEnv sampleWorld sampleProject
                    [''posts/a.md'', ''readme.md''] True))"
proof -
  have m: "globMatches sampleEnv (dir sampleProject) ''posts/*.md'' ''posts/a.md''"
    by (simp add: sampleEnv_def)
  have j: "join sampleEnv (dir sampleProject) ''blog/index.qmd'' = ''/site/blog/index.qmd''"
    by (simp add: sampleEnv_def sampleProject_def sampleJoin_def)
  from listingSupplementalFiles_sound[where env = sampleEnv
      and fileList = "[''posts/a.md'', ''readme.md'']", OF sample_listingData] m j
  show ?thesis by fastforce
qed

text \<open>
  Claim C3: clear resets. The call with \<open>incremental = false\<close> returns the empty list
  and leaves the project without listing data, so the incremental call that follows
  returns the empty list for every set of changed files.
\<close>

theorem clear_resets:
  "listingSupplementalFiles env w project fileList False =
     ([], clearListingProjectData w project) \<and>
   listingData (snd (listingSupplementalFiles env w project fileList False)) (dir project) = None \<and>
   fst (listingSupplementalFiles env
          (snd (listingSupplementalFiles env w project fileList False)) project changed True) = []"
  by (simp add: listingSupplementalFiles_def clearListingProjectData_def
      listingProjectData_def objectKeys_def)

theorem clear_resets_witness:
  "fst (listingSupplementalFiles sampleEnv sampleWorld sampleProject [''posts/a.md''] True)
     = [''/site/blog/index.qmd''] \<and>
   fst (listingSupplementalFiles sampleEnv
          (snd (listingSupplementalFiles sampleEnv sampleWorld sampleProject [] False))
          sampleProject [''posts/a.md''] True) = []"
proof -
  from sample_changed_post
    clear_resets[of sampleEnv sampleWorld sampleProject "[]" "[''posts/a.md'']",
      THEN conjunct2, THEN conjunct2]
  show ?thesis by (rule conjI)
qed

text \<open>
  Claim C6, as the code has it: the scenario. With the cache
  \<open>{ "blog/index.qmd": ["posts/*.md"] }\<close> and a glob matcher for which \<open>posts/*.md\<close>
  matches \<open>posts/a.md\<close> and not \<open>readme.md\<close>, the incremental call for \<open>posts/a.md\<close>
  returns one path, the listing page joined to the project directory, and the call for
  \<open>readme.md\<close> returns the empty list.
\<close>

theorem scenario_joined:
  assumes "listingData w (dir project) =
             Some \<lparr>listingMap = Some [(''blog/index.qmd'', [''posts/*.md''])]\<rparr>"
    and "globMatches env (dir project) ''posts/*.md'' ''posts/a.md''"
    and "\<not> globMatches env (dir project) ''posts/*.md'' ''readme.md''"
  shows "fst (listingSupplementalFiles env w project [''posts/a.md''] True)
           = [join env (dir project) ''blog/index.qmd''] \<and>
         fst (listingSupplementalFiles env w project [''readme.md''] True) = []"
  using assms(2,3)
  by (simp add: incremental_result[OF assms(1)] globsOf_def uniqBy_def)

theorem scenario_joined_witness:
  "fst (listingSupplementalFiles sampleEnv sampleWorld sampleProject [''posts/a.md''] True)
     = [''/site/blog/index.qmd''] \<and>
   fst (listingSupplementalFiles sampleEnv sampleWorld sampleProject [''readme.md''] True) = []"
proof -
  have a: "globMatches sampleEnv (dir sampleProject) ''posts/*.md'' ''posts/a.md''"
    by (simp add: sampleEnv_def)
  have b: "\<not> globMatches sampleEnv (dir sampleProject) ''posts/*.md'' ''readme.md''"
    by (simp add: sampleEnv_def)
  have j: "join sampleEnv (dir sampleProject) ''blog/index.qmd'' = ''/site/blog/index.qmd''"
    by (simp add: sampleEnv_def sampleProject_def sampleJoin_def)
  from scenario_joined[OF sample_listingData a b] j show ?thesis by simp
qed

text \<open>
  Claim C6 as it is written fails for a project whose directory is not empty: in the
  project \<open>/site\<close> the call returns \<open>/site/blog/index.qmd\<close>, not the relative path of
  the cache key.
\<close>

theorem scenario_counterexample:
  "fst (listingSupplementalFiles sampleEnv sampleWorld sampleProject [''posts/a.md''] True)
     \<noteq> [''blog/index.qmd'']"
  by (simp add: sample_changed_post)

text \<open>
  Claim C9: a page without listings. When \<open>readListings\<close> yields no descriptor,
  \<open>listingHtmlDependencies\<close> returns \<open>undefined\<close> and leaves the world as it was: the
  listing cache is not written, no script file is written, and no pipeline, script or
  dependency is produced.
\<close>

theorem no_listings_no_effect:
  assumes "fst (readListings env source project format) = []"
  shows "listingHtmlDependencies env w source project format temp = (Inr None, w)"
proof -
  obtain options where "readListings env source project format = ([], options)"
    using assms by (cases "readListings env source project format") simp
  then show ?thesis by (simp add: listingHtmlDependencies_def)
qed

theorem no_listings_no_effect_witness:
  "listingHtmlDependencies sampleEnv sampleWorld ''/site/about.qmd'' sampleProject ()
     \<lparr>createFile = (\<lambda>suffix. ''/tmp/quarto-1.'' @ suffix)\<rparr> = (Inr None, sampleWorld)"
proof -
  have "fst (readListings sampleEnv ''/site/about.qmd'' sampleProject ()) = []"
    by (simp add: sampleEnv_def)
  from no_listings_no_effect[OF this] show ?thesis .
qed

section \<open>Properties of the listing render dispatch\<close>

lemma collectResults_Inl:
  "Inl e \<in> set rs \<Longrightarrow> \<exists>e'. collectResults rs = Inl e'"
  by (induction rs) (auto split: sum.splits)

lemma cacheListingProjectData_files:
  "files (cacheListingProjectData w project path ds) = files w"
  by (simp add: cacheListingProjectData_def Let_def)

lemma markdownHandler_custom_error:
  "listingType lst = Some Custom \<Longrightarrow>
   template lst = None \<or> (\<exists>t. template lst = Some t \<and> \<not> existsSync w t) \<Longrightarrow>
   \<exists>e. markdownHandler env w format lst itms = Inl e"
  by (auto simp add: markdownHandler_def)

lemma listingHtmlDependencies_custom_error:
  assumes "d \<in> set (fst (readListings env source project format))"
    and "listingType (listing d) = Some Custom"
    and "template (listing d) = None \<or> (\<exists>t. template (listing d) = Some t \<and> \<not> existsSync w t)"
  shows "(\<exists>e. fst (listingHtmlDependencies env w source project format temp) = Inl e) \<and>
         files (snd (listingHtmlDependencies env w source project format temp)) = files w"
proof -
  obtain ds opts where r: "readListings env source project format = (ds, opts)"
    by (cases "readListings env source project format")
  with assms(1) have d: "d \<in> set ds" by simp
  define w1 where "w1 = cacheListingProjectData w project (relative env (dir project) source) ds"
  have f: "files w1 = files w" by (simp add: w1_def cacheListingProjectData_files)
  then have "existsSync w1 = existsSync w" by (simp add: existsSync_def fun_eq_iff)
  with assms(2,3) have "\<exists>e. markdownHandler env w1 format (listing d) (items d) = Inl e"
    by (intro markdownHandler_custom_error) auto
  then obtain e0 where "markdownHandler env w1 format (listing d) (items d) = Inl e0" ..
  with d have "Inl e0 \<in> set (map (\<lambda>x. markdownHandler env w1 format (listing x) (items x)) ds)"
    by force
  then have "\<exists>e. collectResults
      (map (\<lambda>x. markdownHandler env w1 format (listing x) (items x)) ds) = Inl e"
    by (rule collectResults_Inl)
  then obtain e where e: "collectResults
      (map (\<lambda>x. markdownHandler env w1 format (listing x) (items x)) ds) = Inl e" ..
  from d have "ds \<noteq> []" by auto
  with r e have "listingHtmlDependencies env w source project format temp = (Inl e, w1)"
    by (simp add: listingHtmlDependencies_def w1_def Let_def)
  with f show ?thesis by simp
qed

text \<open>
  Claim C4: dispatch determinism. A listing of type Table, Grid or Default, or with no
  type, gets the handler of its bundled template, whatever else the listing and its items
  hold; a listing of type Custom whose template is unset or names a path that does not
  exist ends in an error, and no template handler is made: the page that declares such
  a listing ends in an error before a pipeline is built or the script file is written.
\<close>

theorem markdownHandler_dispatch:
  "(listingType lst = Some Table \<longrightarrow>
      markdownHandler env w format lst itms =
        Inr (TemplateMarkdownHandler
               (resourcePath env ''projects/website/listing/listing-table.ejs.md'')
               lst itms format True)) \<and>
   (listingType lst = Some Grid \<longrightarrow>
      markdownHandler env w format lst itms =
        Inr (TemplateMarkdownHandler
               (resourcePath env ''projects/website/listing/listing-grid.ejs.md'')
               lst itms format True)) \<and>
   (listingType lst = Some Default \<or> listingType lst = None \<longrightarrow>
      markdownHandler env w format lst itms =
        Inr (TemplateMarkdownHandler
               (resourcePath env ''projects/website/listing/listing-default.ejs.md'')
               lst itms format True)) \<and>
   (listingType lst = Some Custom \<and>
    (template lst = None \<or> (\<exists>t. template lst = Some t \<and> \<not> existsSync w t)) \<longrightarrow>
      (\<exists>e. markdownHandler env w format lst itms = Inl e)) \<and>
   (\<forall>d. d \<in> set (fst (readListings env source project format)) \<and>
        listingType (listing d) = Some Custom \<and>
        (template (listing d) = None \<or>
         (\<exists>t. template (listing d) = Some t \<and> \<not> existsSync w t)) \<longrightarrow>
      (\<exists>e. fst (listingHtmlDependencies env w source project format temp) = Inl e) \<and>
      files (snd (listingHtmlDependencies env w source project format temp)) = files w)"
proof -
  have handler:
    "(listingType lst = Some Table \<longrightarrow>
        markdownHandler env w format lst itms =
          Inr (TemplateMarkdownHandler
                 (resourcePath env ''projects/website/listing/listing-table.ejs.md'')
                 lst itms format True)) \<and>
     (listingType lst = Some Grid \<longrightarrow>
        markdownHandler env w format lst itms =
          Inr (TemplateMarkdownHandler
                 (resourcePath env ''projects/website/listing/listing-grid.ejs.md'')
                 lst itms format True)) \<and>
     (listingType lst = Some Default \<or> listingType lst = None \<longrightarrow>
        markdownHandler env w format lst itms =
          Inr (TemplateMarkdownHandler
                 (resourcePath env ''projects/website/listing/listing-default.ejs.md'')
                 lst itms format True)) \<and>
     (listingType lst = Some Custom \<and>
      (template lst = None \<or> (\<exists>t. template lst = Some t \<and> \<not> existsSync w t)) \<longrightarrow>
        (\<exists>e. markdownHandler env w format lst itms = Inl e))"
    by (auto simp add: markdownHandler_def)
  have page:
    "\<forall>d. d \<in> set (fst (readListings env source project format)) \<and>
        listingType (listing d) = Some Custom \<and>
        (template (listing d) = None \<or>
         (\<exists>t. template (listing d) = Some t \<and> \<not> existsSync w t)) \<longrightarrow>
      (\<exists>e. fst (listingHtmlDependencies env w source project format temp) = Inl e) \<and>
      files (snd (listingHtmlDependencies env w source project format temp)) = files w"
    using listingHtmlDependencies_custom_error[of _ env source project format w temp]
    by blast
  from handler page show ?thesis by (intro conjI) (erule conjE | assumption)+
qed

theorem markdownHandler_dispatch_witness:
  "markdownHandler sampleEnv sampleWorld () (sampleListing\<lparr>listingType := Some Table\<rparr>) [] =
     Inr (TemplateMarkdownHandler ''/share/projects/website/listing/listing-table.ejs.md''
            (sampleListing\<lparr>listingType := Some Table\<rparr>) [] () True) \<and>
   markdownHandler sampleEnv sampleWorld () (sampleListing\<lparr>listingType := Some Grid\<rparr>) [] =
     Inr (TemplateMarkdownHandler ''/share/projects/website/listing/listing-grid.ejs.md''
            (sampleListing\<lparr>listingType := Some Grid\<rparr>) [] () True) \<and>
   markdownHandler sampleEnv sampleWorld () (sampleListing\<lparr>listingType := None\<rparr>) [] =
     Inr (TemplateMarkdownHandler ''/share/projects/website/listing/listing-default.ejs.md''
            (sampleListing\<lparr>listingType := None\<rparr>) [] () True) \<and>
   (\<exists>e. markdownHandler sampleEnv sampleWorld () sampleListing [] = Inl e) \<and>
   (\<exists>e. fst (listingHtmlDependencies sampleListingEnv sampleWorld ''/site/blog/index.qmd''
               sampleProject () sampleTemp) = Inl e) \<and>
   files (snd (listingHtmlDependencies sampleListingEnv sampleWorld ''/site/blog/index.qmd''
                 sampleProject () sampleTemp)) = Map.empty"
proof -
  have r: "resourcePath sampleEnv p = ''/share/'' @ p" for p by (simp add: sampleEnv_def)
  have c: "listingType sampleListing = Some Custom \<and>
    (template sampleListing = None \<or>
     (\<exists>t. template sampleListing = Some t \<and> \<not> existsSync sampleWorld t))"
    by (simp add: sampleListing_def existsSync_def sampleWorld_def)
  from markdownHandler_dispatch[of "sampleListing\<lparr>listingType := Some Table\<rparr>" sampleEnv sampleWorld "()" "[]"]
    markdownHandler_dispatch[of "sampleListing\<lparr>listingType := Some Grid\<rparr>" sampleEnv sampleWorld "()" "[]"]
    markdownHandler_dispatch[of "sampleListing\<lparr>listingType := None\<rparr>" sampleEnv sampleWorld "()" "[]"]
    markdownHandler_dispatch[of sampleListing sampleEnv sampleWorld "()" "[]"] c
  have handlers:
    "markdownHandler sampleEnv sampleWorld () (sampleListing\<lparr>listingType := Some Table\<rparr>) [] =
       Inr (TemplateMarkdownHandler ''/share/projects/website/listing/listing-table.ejs.md''
              (sampleListing\<lparr>listingType := Some Table\<rparr>) [] () True) \<and>
     markdownHandler sampleEnv sampleWorld () (sampleListing\<lparr>listingType := Some Grid\<rparr>) [] =
       Inr (TemplateMarkdownHandler ''/share/projects/website/listing/listing-grid.ejs.md''
              (sampleListing\<lparr>listingType := Some Grid\<rparr>) [] () True) \<and>
     markdownHandler sampleEnv sampleWorld () (sampleListing\<lparr>listingType := None\<rparr>) [] =
       Inr (TemplateMarkdownHandler ''/share/projects/website/listing/listing-default.ejs.md''
              (sampleListing\<lparr>listingType := None\<rparr>) [] () True) \<and>
     (\<exists>e. markdownHandler sampleEnv sampleWorld () sampleListing [] = Inl e)"
    by (simp add: r)
  have d: "\<lparr>listing = sampleListing, items = []\<rparr>
      \<in> set (fst (readListings sampleListingEnv ''/site/blog/index.qmd'' sampleProject ()))"
    by (simp add: sampleListingEnv_def)
  have f: "files sampleWorld = Map.empty" by (simp add: sampleWorld_def)
  from markdownHandler_dispatch[of sampleListing sampleListingEnv sampleWorld "()" "[]"
      "''/site/blog/index.qmd''" sampleProject sampleTemp] c d f
  have page:
    "(\<exists>e. fst (listingHtmlDependencies sampleListingEnv sampleWorld ''/site/blog/index.qmd''
                 sampleProject () sampleTemp) = Inl e) \<and>
     files (snd (listingHtmlDependencies sampleListingEnv sampleWorld ''/site/blog/index.qmd''
                   sampleProject () sampleTemp)) = Map.empty"
    by (auto dest!: spec[of _ "\<lparr>listing = sampleListing, items = []\<rparr>"])
  from handlers page show ?thesis by (intro conjI) (erule conjE | assumption)+
qed

text \<open>
  Claim C5, as the code has it. For a listing of type Custom the error for a template
  path that does not exist is \<open>The template <path> can't be found.\<close> and so names the
  path; the error for an unset template is a fixed sentence; and no error of
  \<open>markdownHandler\<close> depends on the identifier of the listing.
\<close>

theorem custom_template_errors:
  "(listingType lst = Some Custom \<and> template lst = None \<longrightarrow>
      markdownHandler env w format lst itms =
        Inl (Error (''In order to use a listing of type custom, '' @
                    ''please provide the path to a template.''))) \<and>
   (\<forall>t. listingType lst = Some Custom \<and> template lst = Some t \<and> \<not> existsSync w t \<longrightarrow>
      markdownHandler env w format lst itms =
        Inl (Error (''The template '' @ t @ '' can'' @ [CHR 0x27] @ ''t be found.'')) \<and>
      sublist t (''The template '' @ t @ '' can'' @ [CHR 0x27] @ ''t be found.'')) \<and>
   (\<forall>e i. markdownHandler env w format lst itms = Inl e \<longrightarrow>
      markdownHandler env w format (lst\<lparr>listingId := i\<rparr>) itms = Inl e)"
proof (intro conjI allI impI)
  assume "listingType lst = Some Custom \<and> template lst = None"
  then show "markdownHandler env w format lst itms =
        Inl (Error (''In order to use a listing of type custom, '' @
                    ''please provide the path to a template.''))"
    by (simp add: markdownHandler_def)
next
  fix t assume "listingType lst = Some Custom \<and> template lst = Some t \<and> \<not> existsSync w t"
  then show "markdownHandler env w format lst itms =
        Inl (Error (''The template '' @ t @ '' can'' @ [CHR 0x27] @ ''t be found.''))"
    by (simp add: markdownHandler_def)
next
  fix t
  show "sublist t (''The template '' @ t @ '' can'' @ [CHR 0x27] @ ''t be found.'')"
    by (rule sublist_appendI)
next
  fix e i assume "markdownHandler env w format lst itms = Inl e"
  then show "markdownHandler env w format (lst\<lparr>listingId := i\<rparr>) itms = Inl e"
    by (auto simp add: markdownHandler_def split: option.splits ListingType.splits if_splits)
qed

theorem custom_template_errors_witness:
  "markdownHandler sampleEnv sampleWorld () sampleListing [] =
     Inl (Error (''The template missing.ejs can'' @ [CHR 0x27] @ ''t be found.'')) \<and>
   sublist ''missing.ejs'' (''The template missing.ejs can'' @ [CHR 0x27] @ ''t be found.'') \<and>
   markdownHandler sampleEnv sampleWorld () (sampleListing\<lparr>listingId := ''other''\<rparr>) [] =
     Inl (Error (''The template missing.ejs can'' @ [CHR 0x27] @ ''t be found.'')) \<and>
   markdownHandler sampleEnv sampleWorld () (sampleListing\<lparr>template := None\<rparr>) [] =
     Inl (Error (''In order to use a listing of type custom, '' @
                 ''please provide the path to a template.''))"
proof -
  have c: "listingType sampleListing = Some Custom \<and> template sampleListing = Some ''missing.ejs''
      \<and> \<not> existsSync sampleWorld ''missing.ejs''"
    by (simp add: sampleListing_def existsSync_def sampleWorld_def)
  have n: "listingType (sampleListing\<lparr>template := None\<rparr>) = Some Custom \<and>
      template (sampleListing\<lparr>template := None\<rparr>) = None"
    by (simp add: sampleListing_def)
  from custom_template_errors[of sampleListing sampleEnv sampleWorld "()" "[]"] c
  have 1: "markdownHandler sampleEnv sampleWorld () sampleListing [] =
        Inl (Error (''The template '' @ ''missing.ejs'' @ '' can'' @ [CHR 0x27] @ ''t be found.'')) \<and>
      sublist ''missing.ejs'' (''The template '' @ ''missing.ejs'' @ '' can'' @ [CHR 0x27] @ ''t be found.'')"
    by blast
  from custom_template_errors[of sampleListing sampleEnv sampleWorld "()" "[]"] 1
  have 2: "markdownHandler sampleEnv sampleWorld () (sampleListing\<lparr>listingId := ''other''\<rparr>) [] =
        Inl (Error (''The template '' @ ''missing.ejs'' @ '' can'' @ [CHR 0x27] @ ''t be found.''))"
    by blast
  from custom_template_errors[of "sampleListing\<lparr>template := None\<rparr>" sampleEnv sampleWorld "()" "[]"] n
  have 3: "markdownHandler sampleEnv sampleWorld () (sampleListing\<lparr>template := None\<rparr>) [] =
     Inl (Error (''In order to use a listing of type custom, '' @
                 ''please provide the path to a template.''))" by blast
  from 1 2 3 show ?thesis by simp
qed

text \<open>
  Claim C5 as it is written fails: the error for the custom listing \<open>listing-blog\<close>
  whose template \<open>missing.ejs\<close> does not exist names the path and not the identifier.
\<close>

theorem custom_template_error_counterexample:
  "listingType sampleListing = Some Custom \<and>
   \<not> existsSync sampleWorld ''missing.ejs'' \<and>
   markdownHandler sampleEnv sampleWorld () sampleListing [] =
     Inl (Error (''The template missing.ejs can'' @ [CHR 0x27] @ ''t be found.'')) \<and>
   \<not> sublist (listingId sampleListing)
        (''The template missing.ejs can'' @ [CHR 0x27] @ ''t be found.'')"
proof (intro conjI)
  show "listingType sampleListing = Some Custom" by (simp add: sampleListing_def)
  show "\<not> existsSync sampleWorld ''missing.ejs''" by (simp add: existsSync_def sampleWorld_def)
  show "markdownHandler sampleEnv sampleWorld () sampleListing [] =
     Inl (Error (''The template missing.ejs can'' @ [CHR 0x27] @ ''t be found.''))"
    by (simp add: markdownHandler_def sampleListing_def existsSync_def sampleWorld_def)
  show "\<not> sublist (listingId sampleListing)
        (''The template missing.ejs can'' @ [CHR 0x27] @ ''t be found.'')"
    unfolding sampleListing_def by code_simp
qed

section \<open>Properties of the post processors\<close>

lemma map_of_spread:
  "distinct (map fst obj) \<Longrightarrow>
   map_of (spread base obj) x = (case map_of obj x of None \<Rightarrow> map_of base x | Some v \<Rightarrow> Some v)"
  unfolding spread_def
proof (induction obj arbitrary: base)
  case Nil
  then show ?case by simp
next
  case (Cons kv obj)
  obtain k v where kv: "kv = (k, v)" by (cases kv)
  from Cons.prems kv have d: "distinct (map fst obj)" and nk: "map_of obj k = None"
    by (auto simp: map_of_eq_None_iff)
  from Cons.IH[OF d, of "AList.update k v base"] kv nk show ?case
    by (auto simp add: update_conv' split: option.splits)
qed

lemma sample_feed_run:
  "feedRuns (listingPostProcessor sampleEnv ''/site/blog/index.qmd'' sampleProject []
       (sampleOptions feedOptions) () (createMarkdownPipeline ''quarto-listing-pipeline'' [])
       sampleDocument)
     = [spread [(''type'', JsString ''partial'')] feedOptions]"
  by (simp add: listingPostProcessor_def sampleOptions_def Let_def)

lemma getElementById_None:
  "(getElementById n i = None) = (i \<notin> elementIds n)"
  "(getElementByIdIn ks m i = None) = (i \<notin> (\<Union>k \<in> set ks. elementIds k))"
  by (induction n i and ks m i rule: getElementById_getElementByIdIn.induct)
     (auto split: option.splits)

text \<open>
  Claim C2, as the code has it. When the shared options hold a feed configuration,
  \<open>createFeed\<close> runs once, with the type the configuration asks for, and with
  \<open>partial\<close> when the configuration names no type: \<open>partial\<close> is the default that the
  spread of the configuration overwrites.
\<close>

theorem feed_type_defaulted:
  assumes "feed options = Some feedOptions" and "distinct (map fst feedOptions)"
  shows "\<exists>listingOptions.
           feedRuns (listingPostProcessor env source project ds options format pipeline doc)
             = [listingOptions] \<and>
           map_of listingOptions ''type'' =
             Some (case map_of feedOptions ''type'' of
                     None \<Rightarrow> JsString ''partial''
                   | Some requested \<Rightarrow> requested)"
  using assms
  by (simp add: listingPostProcessor_def Let_def map_of_spread split: option.splits)

theorem feed_type_defaulted_witness:
  "map (\<lambda>listingOptions. map_of listingOptions ''type'')
     (feedRuns (listingPostProcessor sampleEnv ''/site/blog/index.qmd'' sampleProject []
        (sampleOptions [(''title'', JsString ''Blog'')]) ()
        (createMarkdownPipeline ''quarto-listing-pipeline'' []) sampleDocument))
     = [Some (JsString ''partial'')]"
proof -
  have f: "feed (sampleOptions [(''title'', JsString ''Blog'')]) = Some [(''title'', JsString ''Blog'')]"
    by (simp add: sampleOptions_def)
  have d: "distinct (map fst [(''title'', JsString ''Blog'')])" by simp
  from feed_type_defaulted[OF f d, of sampleEnv "''/site/blog/index.qmd''" sampleProject "[]" "()"
      "createMarkdownPipeline ''quarto-listing-pipeline'' []" sampleDocument]
  show ?thesis by auto
qed

text \<open>
  Claim C2 as it is written fails: a feed configuration that asks for the type \<open>full\<close>
  reaches \<open>createFeed\<close> with the type \<open>full\<close>.
\<close>

theorem feed_type_counterexample:
  "map (\<lambda>listingOptions. map_of listingOptions ''type'')
     (feedRuns (listingPostProcessor sampleEnv ''/site/blog/index.qmd'' sampleProject []
        (sampleOptions [(''type'', JsString ''full'')]) ()
        (createMarkdownPipeline ''quarto-listing-pipeline'' []) sampleDocument))
     = [Some (JsString ''full'')]"
  by (simp add: sample_feed_run spread_def)

text \<open>
  Claim C8: the category sidebar without its container. In a document with no element
  whose id is \<open>quarto-margin-sidebar\<close>, \<open>listingPostProcess\<close> appends nothing: it
  returns the document as it was, and it has no error to raise.
\<close>

theorem sidebar_absent_noop:
  assumes "kMarginSidebarId \<notin> elementIds doc"
  shows "listingPostProcess env doc ds options format = doc"
proof -
  from assms have "getElementById doc kMarginSidebarId = None"
    by (simp add: getElementById_None(1))
  then show ?thesis
    by (simp add: listingPostProcess_def Let_def split: prod.splits)
qed

theorem sidebar_absent_noop_witness:
  "kMarginSidebarId \<notin> elementIds sampleDocument \<and>
   listingPostProcess sampleEnv sampleDocument [] (sampleOptions []) () = sampleDocument"
proof -
  have a: "kMarginSidebarId \<notin> elementIds sampleDocument"
    by (simp add: sampleDocument_def kMarginSidebarId_def)
  from a sidebar_absent_noop[OF a] show ?thesis by simp
qed

section \<open>Properties of the browser automation retry\<close>

declare withPuppeteerBrowserAndPageFrom.simps [simp del]
declare inPuppeteerFrom.simps [simp del]

lemma page_bounds:
  "a \<le> maxAttempts \<Longrightarrow>
   a \<le> attemptsMade (withPuppeteerBrowserAndPageFrom world a lg) \<and>
   attemptsMade (withPuppeteerBrowserAndPageFrom world a lg) \<le> maxAttempts \<and>
   (a < maxAttempts \<longrightarrow> a < attemptsMade (withPuppeteerBrowserAndPageFrom world a lg))"
proof (induction world a lg rule: withPuppeteerBrowserAndPageFrom.induct)
  case (1 world attempts logged)
  show ?case
  proof (cases "attempts < maxAttempts")
    case False
    then have "attemptsMade (withPuppeteerBrowserAndPageFrom world attempts logged) = attempts"
      by (subst withPuppeteerBrowserAndPageFrom.simps) simp
    with False "1.prems" show ?thesis by simp
  next
    case True
    show ?thesis
    proof (cases "withHeadlessBrowser (world (attempts + 1))")
      case (Inr finished)
      with True "1.IH"(2)[OF True Inr] "1.prems" show ?thesis
        by (auto simp add: withPuppeteerBrowserAndPageFrom.simps[of world attempts logged])
    next
      case (Inl error)
      with True "1.IH"(1)[OF True Inl] "1.prems" show ?thesis
        by (auto simp add: withPuppeteerBrowserAndPageFrom.simps[of world attempts logged])
    qed
  qed
qed

lemma eval_bounds:
  "a \<le> maxAttempts \<Longrightarrow>
   a \<le> attemptsMade (inPuppeteerFrom world a lg) \<and>
   attemptsMade (inPuppeteerFrom world a lg) \<le> maxAttempts \<and>
   (a < maxAttempts \<longrightarrow> a < attemptsMade (inPuppeteerFrom world a lg))"
proof (induction world a lg rule: inPuppeteerFrom.induct)
  case (1 world attempts logged)
  show ?case
  proof (cases "attempts < maxAttempts")
    case False
    then have "attemptsMade (inPuppeteerFrom world attempts logged) = attempts"
      by (subst inPuppeteerFrom.simps) simp
    with False "1.prems" show ?thesis by simp
  next
    case True
    show ?thesis
    proof (cases "withHeadlessBrowser (world (attempts + 1))")
      case (Inr finished)
      with True show ?thesis
        by (auto simp add: inPuppeteerFrom.simps[of world attempts logged])
    next
      case (Inl error)
      with True "1.IH"[OF True Inl] "1.prems" show ?thesis
        by (auto simp add: inPuppeteerFrom.simps[of world attempts logged])
    qed
  qed
qed

lemma page_skip:
  "list_all (\<lambda>j. allowedFailure (world j)) [Suc a..<k] \<Longrightarrow> a < k \<Longrightarrow> k \<le> maxAttempts \<Longrightarrow>
   \<exists>lg'. withPuppeteerBrowserAndPageFrom world a lg =
         withPuppeteerBrowserAndPageFrom world (k - 1) lg'"
proof (induction "k - a" arbitrary: a lg)
  case 0
  then show ?case by simp
next
  case (Suc d)
  show ?case
  proof (cases "Suc a = k")
    case True
    then show ?thesis by auto
  next
    case False
    with Suc.prems have lt: "Suc a < k" by simp
    with Suc.prems have af: "allowedFailure (world (Suc a))"
      by (simp add: list_all_iff)
    then obtain e where e: "withHeadlessBrowser (world (Suc a)) = Inl e"
      "message e \<in> set allowedErrorMessages"
      by (auto simp: allowedFailure_def split: sum.splits)
    from lt Suc.prems have "Suc a < maxAttempts" by simp
    with e have step: "withPuppeteerBrowserAndPageFrom world a lg =
        withPuppeteerBrowserAndPageFrom world (Suc a) (lg @ [retryMessage e (Suc a)])"
      by (subst withPuppeteerBrowserAndPageFrom.simps) simp
    from Suc.prems lt have rest: "list_all (\<lambda>j. allowedFailure (world j)) [Suc (Suc a)..<k]"
      by (simp add: list_all_iff)
    from Suc.hyps(2) have "d = k - Suc a" by simp
    from Suc.hyps(1)[OF this rest lt Suc.prems(3)] step show ?thesis by auto
  qed
qed

lemma eval_skip:
  "list_all (\<lambda>j. allowedFailure (world j)) [Suc a..<k] \<Longrightarrow> a < k \<Longrightarrow> k \<le> maxAttempts \<Longrightarrow>
   \<exists>lg'. inPuppeteerFrom world a lg = inPuppeteerFrom world (k - 1) lg'"
proof (induction "k - a" arbitrary: a lg)
  case 0
  then show ?case by simp
next
  case (Suc d)
  show ?case
  proof (cases "Suc a = k")
    case True
    then show ?thesis by auto
  next
    case False
    with Suc.prems have lt: "Suc a < k" by simp
    with Suc.prems have af: "allowedFailure (world (Suc a))"
      by (simp add: list_all_iff)
    then obtain e where e: "withHeadlessBrowser (world (Suc a)) = Inl e"
      "message e \<in> set allowedErrorMessages"
      by (auto simp: allowedFailure_def split: sum.splits)
    from lt Suc.prems have "Suc a < maxAttempts" by simp
    with e have step: "inPuppeteerFrom world a lg =
        inPuppeteerFrom world (Suc a) (lg @ [retryMessage e (Suc a)])"
      by (subst inPuppeteerFrom.simps) simp
    from Suc.prems lt have rest: "list_all (\<lambda>j. allowedFailure (world j)) [Suc (Suc a)..<k]"
      by (simp add: list_all_iff)
    from Suc.hyps(2) have "d = k - Suc a" by simp
    from Suc.hyps(1)[OF this rest lt Suc.prems(3)] step show ?thesis by auto
  qed
qed

lemma page_rethrow:
  assumes "1 \<le> k" "k \<le> maxAttempts" "allowedFailuresBefore world k"
    and "withHeadlessBrowser (world k) = Inl e"
    and "message e \<notin> set allowedErrorMessages \<or> k = maxAttempts"
  shows "outcome (withPuppeteerBrowserAndPage world) = Inl e \<and>
         attemptsMade (withPuppeteerBrowserAndPage world) = k"
proof -
  from assms(1-3) obtain lg' where
    "withPuppeteerBrowserAndPageFrom world 0 [] = withPuppeteerBrowserAndPageFrom world (k - 1) lg'"
    using page_skip[of world 0 k "[]"] by (auto simp: allowedFailuresBefore_def)
  moreover from assms have "withPuppeteerBrowserAndPageFrom world (k - 1) lg' =
      \<lparr>outcome = Inl e, attemptsMade = k, consoleLog = lg'\<rparr>"
    by (subst withPuppeteerBrowserAndPageFrom.simps) auto
  ultimately show ?thesis by (simp add: withPuppeteerBrowserAndPage_def)
qed

lemma eval_rethrow:
  assumes "1 \<le> k" "k \<le> maxAttempts" "allowedFailuresBefore world k"
    and "withHeadlessBrowser (world k) = Inl e"
    and "message e \<notin> set allowedErrorMessages \<or> k = maxAttempts"
  shows "outcome (inPuppeteer world) = Inl e \<and> attemptsMade (inPuppeteer world) = k"
proof -
  from assms(1-3) obtain lg' where
    "inPuppeteerFrom world 0 [] = inPuppeteerFrom world (k - 1) lg'"
    using eval_skip[of world 0 k "[]"] by (auto simp: allowedFailuresBefore_def)
  moreover from assms have "inPuppeteerFrom world (k - 1) lg' =
      \<lparr>outcome = Inl e, attemptsMade = k, consoleLog = lg'\<rparr>"
    by (subst inPuppeteerFrom.simps) auto
  ultimately show ?thesis by (simp add: inPuppeteer_def)
qed

lemma page_retried:
  assumes "1 \<le> k" "k < maxAttempts" "allowedFailuresBefore world (Suc k)"
  shows "k < attemptsMade (withPuppeteerBrowserAndPage world)"
proof -
  from assms obtain lg' where
    "withPuppeteerBrowserAndPageFrom world 0 [] = withPuppeteerBrowserAndPageFrom world k lg'"
    using page_skip[of world 0 "Suc k" "[]"] by (auto simp: allowedFailuresBefore_def)
  with page_bounds[of k world lg'] assms(2) show ?thesis
    by (simp add: withPuppeteerBrowserAndPage_def)
qed

lemma eval_retried:
  assumes "1 \<le> k" "k < maxAttempts" "allowedFailuresBefore world (Suc k)"
  shows "k < attemptsMade (inPuppeteer world)"
proof -
  from assms obtain lg' where
    "inPuppeteerFrom world 0 [] = inPuppeteerFrom world k lg'"
    using eval_skip[of world 0 "Suc k" "[]"] by (auto simp: allowedFailuresBefore_def)
  with eval_bounds[of k world lg'] assms(2) show ?thesis
    by (simp add: inPuppeteer_def)
qed

text \<open>
  Claim C7: the retry of the browser automation, for \<open>withPuppeteerBrowserAndPage\<close> and
  for \<open>inPuppeteer\<close>. No run makes more than 5 attempts. When every attempt before the
  \<open>k\<close>-th threw an allow-listed error and the \<open>k\<close>-th throws an error that is not on the
  allow-list, or is the 5th, the run ends after \<open>k\<close> attempts and throws that very error.
  When the first \<open>k < 5\<close> attempts all threw allow-listed errors, another attempt is made.
\<close>

theorem puppeteer_retry:
  "attemptsMade (withPuppeteerBrowserAndPage world) \<le> 5 \<and>
   attemptsMade (inPuppeteer world) \<le> 5 \<and>
   (\<forall>k e. 1 \<le> k \<and> k \<le> 5 \<and> allowedFailuresBefore world k \<and>
          withHeadlessBrowser (world k) = Inl e \<and>
          (message e \<notin> set allowedErrorMessages \<or> k = 5) \<longrightarrow>
      outcome (withPuppeteerBrowserAndPage world) = Inl e \<and>
      attemptsMade (withPuppeteerBrowserAndPage world) = k \<and>
      outcome (inPuppeteer world) = Inl e \<and>
      attemptsMade (inPuppeteer world) = k) \<and>
   (\<forall>k. 1 \<le> k \<and> k < 5 \<and> allowedFailuresBefore world (Suc k) \<longrightarrow>
      k < attemptsMade (withPuppeteerBrowserAndPage world) \<and>
      k < attemptsMade (inPuppeteer world))"
proof (intro conjI allI impI)
  show "attemptsMade (withPuppeteerBrowserAndPage world) \<le> 5"
    using page_bounds[of 0 world "[]"] by (simp add: withPuppeteerBrowserAndPage_def maxAttempts_def)
  show "attemptsMade (inPuppeteer world) \<le> 5"
    using eval_bounds[of 0 world "[]"] by (simp add: inPuppeteer_def maxAttempts_def)
next
  fix k e
  assume h: "1 \<le> k \<and> k \<le> 5 \<and> allowedFailuresBefore world k \<and>
          withHeadlessBrowser (world k) = Inl e \<and>
          (message e \<notin> set allowedErrorMessages \<or> k = 5)"
  then have p: "outcome (withPuppeteerBrowserAndPage world) = Inl e \<and>
         attemptsMade (withPuppeteerBrowserAndPage world) = k"
    by (intro page_rethrow) (auto simp: maxAttempts_def)
  from h have q: "outcome (inPuppeteer world) = Inl e \<and> attemptsMade (inPuppeteer world) = k"
    by (intro eval_rethrow) (auto simp: maxAttempts_def)
  from p show "outcome (withPuppeteerBrowserAndPage world) = Inl e" by simp
  from p show "attemptsMade (withPuppeteerBrowserAndPage world) = k" by simp
  from q show "outcome (inPuppeteer world) = Inl e" by simp
  from q show "attemptsMade (inPuppeteer world) = k" by simp
next
  fix k
  assume h: "1 \<le> k \<and> k < 5 \<and> allowedFailuresBefore world (Suc k)"
  then show "k < attemptsMade (withPuppeteerBrowserAndPage world)"
    by (intro page_retried) (auto simp: maxAttempts_def)
  from h show "k < attemptsMade (inPuppeteer world)"
    by (intro eval_retried) (auto simp: maxAttempts_def)
qed

theorem puppeteer_retry_witness:
  "outcome (withPuppeteerBrowserAndPage sampleAttempts) = Inl (Error ''Protocol error'') \<and>
   attemptsMade (withPuppeteerBrowserAndPage sampleAttempts) = 3 \<and>
   outcome (inPuppeteer sampleAttempts) = Inl (Error ''Protocol error'') \<and>
   attemptsMade (inPuppeteer sampleAttempts) = 3 \<and>
   outcome (withPuppeteerBrowserAndPage timeouts) =
     Inl (Error ''Navigation timeout of 30000 ms exceeded'') \<and>
   attemptsMade (withPuppeteerBrowserAndPage timeouts) = 5"
proof -
  have w: "withHeadlessBrowser (failing m) = Inl (Error m)" for m
    by (simp add: withHeadlessBrowser_def failing_def)
  have a: "allowedFailuresBefore sampleAttempts 3"
    by (simp add: allowedFailuresBefore_def list_all_iff allowedFailure_def sampleAttempts_def w
        allowedErrorMessages_def)
  have b: "allowedFailuresBefore timeouts 5"
    by (simp add: allowedFailuresBefore_def list_all_iff allowedFailure_def timeouts_def w
        allowedErrorMessages_def)
  have c: "withHeadlessBrowser (sampleAttempts 3) = Inl (Error ''Protocol error'')"
    by (simp add: sampleAttempts_def w)
  have d: "''Protocol error'' \<notin> set allowedErrorMessages"
    by (simp add: allowedErrorMessages_def)
  have e: "withHeadlessBrowser (timeouts 5) = Inl (Error ''Navigation timeout of 30000 ms exceeded'')"
    by (simp add: timeouts_def w)
  have 1: "outcome (withPuppeteerBrowserAndPage sampleAttempts) = Inl (Error ''Protocol error'') \<and>
      attemptsMade (withPuppeteerBrowserAndPage sampleAttempts) = 3 \<and>
      outcome (inPuppeteer sampleAttempts) = Inl (Error ''Protocol error'') \<and>
      attemptsMade (inPuppeteer sampleAttempts) = 3"
    by (rule puppeteer_retry[of sampleAttempts, THEN conjunct2, THEN conjunct2, THEN conjunct1,
          rule_format, of 3]) (simp add: a c d)
  have "outcome (withPuppeteerBrowserAndPage timeouts) =
       Inl (Error ''Navigation timeout of 30000 ms exceeded'') \<and>
     attemptsMade (withPuppeteerBrowserAndPage timeouts) = 5 \<and>
     outcome (inPuppeteer timeouts) = Inl (Error ''Navigation timeout of 30000 ms exceeded'') \<and>
     attemptsMade (inPuppeteer timeouts) = 5"
    by (rule puppeteer_retry[of timeouts, THEN conjunct2, THEN conjunct2, THEN conjunct1,
          rule_format, of 5]) (simp add: b e)
  then have 2: "outcome (withPuppeteerBrowserAndPage timeouts) =
       Inl (Error ''Navigation timeout of 30000 ms exceeded'') \<and>
     attemptsMade (withPuppeteerBrowserAndPage timeouts) = 5"
    by simp
  from 1 2 show ?thesis by simp
qed

end
